theory Spec2Isabelle
  imports Main
begin

section \<open>Go values used by the supervisor and the log buffer\<close>

text \<open>
  \<^verbatim>\<open>syscall.Errno\<close> is an unsigned number; the values below are the Linux numbers of
  the errnos that \<^verbatim>\<open>Errno.Is\<close> of the Go standard library inspects, and of
  \<^verbatim>\<open>ESRCH\<close> ("no such process").
\<close>

type_synonym errno = nat

definition EPERM :: errno where "EPERM = 1"
definition ENOENT :: errno where "ENOENT = 2"
definition ESRCH :: errno where "ESRCH = 3"
definition EACCES :: errno where "EACCES = 13"
definition EEXIST :: errno where "EEXIST = 17"
definition ENOSYS :: errno where "ENOSYS = 38"
definition ENOTEMPTY :: errno where "ENOTEMPTY = 39"
definition EOPNOTSUPP :: errno where "EOPNOTSUPP = 95"
definition ECHILD :: errno where "ECHILD = 10"

text \<open>
  The state of a terminated child as \<^verbatim>\<open>os.ProcessState\<close> reports it: it exited with a
  code, or a signal terminated it.
\<close>

datatype ProcessState = Exited int | Signaled nat

fun ws_Signaled :: "ProcessState \<Rightarrow> bool" where
  "ws_Signaled (Signaled s) = True"
| "ws_Signaled (Exited c) = False"

fun ps_Exited :: "ProcessState \<Rightarrow> bool" where
  "ps_Exited (Exited c) = True"
| "ps_Exited (Signaled s) = False"

fun ps_ExitCode :: "ProcessState \<Rightarrow> int" where
  "ps_ExitCode (Exited c) = c"
| "ps_ExitCode (Signaled s) = - 1"

text \<open>
  The error values the program creates, compares and wraps. \<open>Wrapped msg e\<close> is
  \<^verbatim>\<open>fmt.Errorf(msg + "%w", e)\<close>; \<open>ErrorString\<close> is \<^verbatim>\<open>errors.New\<close>.
\<close>

datatype go_error =
    Errno errno
  | ErrProcessDone
  | ErrPermission
  | ErrExist
  | ErrNotExist
  | ErrUnsupported
  | ErrDaemonNotRunning
  | EOF
  | Canceled
  | DeadlineExceeded
  | ExitError ProcessState
  | ErrorString string
  | Wrapped string go_error

text \<open>
  \<^verbatim>\<open>func (e Errno) Is(target error) bool\<close> of package syscall: only the four
  portable sentinels are recognised.
\<close>

fun Errno_Is :: "errno \<Rightarrow> go_error \<Rightarrow> bool" where
  "Errno_Is e ErrPermission = (e = EACCES \<or> e = EPERM)"
| "Errno_Is e ErrExist = (e = EEXIST \<or> e = ENOTEMPTY)"
| "Errno_Is e ErrNotExist = (e = ENOENT)"
| "Errno_Is e ErrUnsupported = (e = ENOSYS \<or> e = EOPNOTSUPP)"
| "Errno_Is e target = False"

text \<open>
  \<^verbatim>\<open>errors.Is\<close>: walk the chain of wrapped errors; a link matches when it equals the
  target or when its own \<^verbatim>\<open>Is\<close> method accepts the target.
\<close>

fun errors_Is :: "go_error \<Rightarrow> go_error \<Rightarrow> bool" where
  "errors_Is (Wrapped msg e) target = (Wrapped msg e = target \<or> errors_Is e target)"
| "errors_Is (Errno n) target = (Errno n = target \<or> Errno_Is n target)"
| "errors_Is e target = (e = target)"

text \<open>\<^verbatim>\<open>errors.As(err, &ee)\<close> for \<^verbatim>\<open>ee *exec.ExitError\<close>.\<close>

fun as_ExitError :: "go_error \<Rightarrow> ProcessState option" where
  "as_ExitError (ExitError ps) = Some ps"
| "as_ExitError (Wrapped msg e) = as_ExitError e"
| "as_ExitError e = None"

section \<open>The log buffer (logger.go)\<close>

record memoryLogger =
  lines :: "string list"
  maxLines :: int

definition NewMemoryLogger :: memoryLogger where
  "NewMemoryLogger = \<lparr>lines = [], maxLines = 1024\<rparr>"

definition newline :: char where
  "newline = CHR 0x0A"

text \<open>
  \<^verbatim>\<open>Write(p []byte) (n int, err error)\<close>. The result is the updated buffer, \<open>n\<close> and
  \<open>err\<close>.
\<close>

definition Write :: "memoryLogger \<Rightarrow> string \<Rightarrow> memoryLogger \<times> int \<times> go_error option" where
  "Write m p =
     (let line = p;
          line = (if length line > 0 \<and> line ! (length line - 1) = newline
                  then take (length line - 1) line else line);
          ls = lines m @ [line];
          ls = (if int (length ls) > maxLines m then drop 1 ls else ls)
      in (m\<lparr>lines := ls\<rparr>, int (length p), None))"

text \<open>
  \<^verbatim>\<open>ReadLine(offset int64) (ss []string, err error)\<close>. The offset is the value of the
  \<^verbatim>\<open>int64\<close>; a nil slice is the empty list. The second test repeats part of the first,
  as in the source.
\<close>

definition ReadLine :: "memoryLogger \<Rightarrow> int \<Rightarrow> memoryLogger \<times> (go_error + string list)" where
  "ReadLine m offset =
     (if offset < 0 \<or> offset \<ge> int (length (lines m)) then (m, Inl EOF)
      else if offset \<ge> int (length (lines m)) then (m, Inr [])
      else (m\<lparr>lines := take (nat offset) (lines m)\<rparr>, Inr (drop (nat offset) (lines m))))"

definition Lines :: "memoryLogger \<Rightarrow> int" where
  "Lines m = int (length (lines m))"

definition Close :: "memoryLogger \<Rightarrow> go_error option" where
  "Close m = None"

text \<open>The operations a holder of the buffer can perform, and a run of them.\<close>

datatype logger_op = OpWrite string | OpReadLine int | OpLines | OpClose

fun apply_op :: "memoryLogger \<Rightarrow> logger_op \<Rightarrow> memoryLogger" where
  "apply_op m (OpWrite p) = fst (Write m p)"
| "apply_op m (OpReadLine offset) = fst (ReadLine m offset)"
| "apply_op m OpLines = m"
| "apply_op m OpClose = m"

fun run_ops :: "memoryLogger \<Rightarrow> logger_op list \<Rightarrow> memoryLogger" where
  "run_ops m [] = m"
| "run_ops m (x # xs) = run_ops (apply_op m x) xs"

text \<open>The capacity predicate: the cap is 1024 and the line count is within it.\<close>

definition within_cap :: "memoryLogger \<Rightarrow> bool" where
  "within_cap m = (maxLines m = 1024 \<and> Lines m \<le> 1024)"

text \<open>
  The specification's words for what a write stores: the input with at most one trailing
  line terminator stripped.
\<close>

definition strip_one_terminator :: "string \<Rightarrow> string" where
  "strip_one_terminator p = (if p \<noteq> [] \<and> last p = newline then butlast p else p)"

section \<open>The process supervisor (daemon.go)\<close>

text \<open>
  The file daemon.go holds two revisions of the supervisor. The later one (from the second
  package clause on: \<^verbatim>\<open>Daemon\<close> with the fields \<^verbatim>\<open>exitError\<close> and \<^verbatim>\<open>done\<close>) is the one
  embedded here. The earlier one has no waiter and no watcher: its \<^verbatim>\<open>Start\<close> gives the
  caller's context to the command, and its \<^verbatim>\<open>Stop\<close> waits for the child itself.
\<close>

subsection \<open>Signals, contexts, panics\<close>

type_synonym signal = nat

definition SIGINT :: signal where "SIGINT = 2"
definition SIGKILL :: signal where "SIGKILL = 9"
definition SIGTERM :: signal where "SIGTERM = 15"

text \<open>Signal number 0 is the null signal of the liveness probe; the others terminate.\<close>

definition termination_signal :: "signal \<Rightarrow> bool" where
  "termination_signal sig = (sig = SIGINT \<or> sig = SIGTERM \<or> sig = SIGKILL)"

text \<open>
  A \<^verbatim>\<open>context.Context\<close>: the background context, a context with a cancellation source
  of its own (named by a number) below a parent, or \<^verbatim>\<open>context.WithoutCancel\<close> of a parent.
\<close>

datatype go_context = Background | WithCancel nat go_context | WithoutCancel go_context

text \<open>
  \<^verbatim>\<open>ctx.Err()\<close>, given which cancellation sources have fired and with what error; the
  channel \<^verbatim>\<open>ctx.Done()\<close> is closed exactly when \<^verbatim>\<open>ctx.Err()\<close> is not nil.
\<close>

fun ctx_Err :: "(nat \<Rightarrow> go_error option) \<Rightarrow> go_context \<Rightarrow> go_error option" where
  "ctx_Err fired Background = None"
| "ctx_Err fired (WithCancel k parent) =
     (case ctx_Err fired parent of Some e \<Rightarrow> Some e | None \<Rightarrow> fired k)"
| "ctx_Err fired (WithoutCancel parent) = None"

datatype panic =
    IndexOutOfRange nat nat
  | SliceBoundsOutOfRange nat nat
  | CloseOfClosedChannel

text \<open>\<^verbatim>\<open>xs[i]\<close> and \<^verbatim>\<open>xs[i:]\<close> with Go's run-time checks.\<close>

definition index_at :: "'a list \<Rightarrow> nat \<Rightarrow> panic + 'a" where
  "index_at xs i =
     (if i < length xs then Inr (xs ! i) else Inl (IndexOutOfRange i (length xs)))"

definition slice_from :: "'a list \<Rightarrow> nat \<Rightarrow> panic + 'a list" where
  "slice_from xs i =
     (if i \<le> length xs then Inr (drop i xs) else Inl (SliceBoundsOutOfRange i (length xs)))"

subsection \<open>The command, the supervisor and the operating system\<close>

datatype writer = DaemonLogger

record Cmd =
  Path :: string
  Args :: "string list"
  Dir :: string
  Stdout :: "writer option"
  Stderr :: "writer option"
  Setpgid :: bool
  cmd_ctx :: go_context
  Process :: "int option"
  Err :: "go_error option"

text \<open>
  \<^verbatim>\<open>filepath.Base\<close> on a Unix system: trailing slashes are dropped, the last element is
  kept; the empty path gives a dot and a path of slashes gives a slash.
\<close>

definition Base :: "string \<Rightarrow> string" where
  "Base path =
     (if path = [] then ''.''
      else
        (let p = rev (dropWhile (\<lambda>c. c = CHR ''/'') (rev path));
             e = rev (takeWhile (\<lambda>c. c \<noteq> CHR ''/'') (rev p))
         in if e = [] then ''/'' else e))"


text \<open>
  The supervisor. \<open>mu\<close> is true while the mutex is held; \<open>done_closed\<close> is the channel
  \<^verbatim>\<open>done\<close>, true once it has been closed (nothing is ever sent on it).
\<close>

record Daemon =
  Name :: string
  Commands :: "string list"
  Logger :: memoryLogger
  Workdir :: string
  cmd :: "Cmd option"
  mu :: bool
  exitError :: "go_error option"
  done_closed :: bool

definition NewDaemon :: "string \<Rightarrow> string list \<Rightarrow> string \<Rightarrow> Daemon" where
  "NewDaemon name commands workdir =
     \<lparr>Name = name, Commands = commands, Logger = NewMemoryLogger, Workdir = workdir,
      cmd = None, mu = False, exitError = None, done_closed = False\<rparr>"

text \<open>
  The operating system as the supervisor sees it: the result of searching the path for a
  command name, of starting a command (an error, or the pid of the child), of
  \<^verbatim>\<open>syscall.Getpgid\<close> and of \<^verbatim>\<open>syscall.Kill\<close>. The results have Go's type \<^verbatim>\<open>error\<close>;
  the system calls themselves report an \<open>Errno\<close>.
\<close>

record os =
  LookPath :: "string \<Rightarrow> string \<times> go_error option"
  spawn :: "Cmd \<Rightarrow> go_error + int"
  getpgid :: "int \<Rightarrow> go_error + int"
  kill :: "int \<Rightarrow> signal \<Rightarrow> go_error option"

text \<open>
  \<^verbatim>\<open>exec.CommandContext(ctx, name, arg...)\<close>: a name without a directory part is
  resolved with \<^verbatim>\<open>exec.LookPath\<close>; the path found replaces the name, and a failure of
  the search is kept in the command.
\<close>

definition CommandContext :: "go_context \<Rightarrow> string \<Rightarrow> string list \<Rightarrow> os \<Rightarrow> Cmd" where
  "CommandContext ctx name arg os =
     (let c = \<lparr>Path = name, Args = name # arg, Dir = [], Stdout = None, Stderr = None,
                Setpgid = False, cmd_ctx = ctx, Process = None, Err = None\<rparr>
      in if Base name = name
         then (case LookPath os name of
                 (lp, err) \<Rightarrow>
                   (let c = (if lp \<noteq> [] then c\<lparr>Path := lp\<rparr> else c)
                    in if err \<noteq> None then c\<lparr>Err := err\<rparr> else c))
         else c)"

text \<open>
  \<^verbatim>\<open>(*exec.Cmd).Start\<close> of a command that has not been started: the command
  afterwards and the error returned. An error kept in the command is returned without
  starting anything; otherwise the operating system starts the child or refuses.
\<close>

definition cmd_Start :: "Cmd \<Rightarrow> os \<Rightarrow> Cmd \<times> go_error option" where
  "cmd_Start c os =
     (let c = (if Path c = [] \<and> Err c = None
               then c\<lparr>Err := Some (ErrorString ''exec: no command'')\<rparr> else c)
      in case Err c of
           Some e \<Rightarrow> (c, Some e)
         | None \<Rightarrow>
             (case spawn os c of
                Inl e \<Rightarrow> (c, Some e)
              | Inr pid \<Rightarrow> (c\<lparr>Process := Some pid\<rparr>, None)))"

datatype goroutine = Watcher go_context | Waiter

datatype DaemonStatus = DaemonStatusRunning | DaemonStatusStopped

subsection \<open>Start\<close>

text \<open>
  \<^verbatim>\<open>Start(ctx)\<close>: a panic, or the updated supervisor, the returned error and the
  goroutines launched. The operands \<^verbatim>\<open>d.Commands[0]\<close> and \<^verbatim>\<open>d.Commands[1:]\<close> of the
  call are not function calls, so the language does not fix which is evaluated first; the
  compiler evaluates the slice expression into a temporary before the other operands of
  the call, and the embedding keeps that order.
\<close>

definition Start ::
  "Daemon \<Rightarrow> go_context \<Rightarrow> os \<Rightarrow> panic + (Daemon \<times> go_error option \<times> goroutine list)" where
  "Start d ctx os =
     (let dctx = WithoutCancel ctx in
      case slice_from (Commands d) 1 of
        Inl p \<Rightarrow> Inl p
      | Inr arg \<Rightarrow>
          (case index_at (Commands d) 0 of
             Inl p \<Rightarrow> Inl p
           | Inr name \<Rightarrow>
               (let c = CommandContext dctx name arg os;
                    c = c\<lparr>Stdout := Some DaemonLogger, Stderr := Some DaemonLogger,
                          Dir := Workdir d, Setpgid := True\<rparr>
                in case cmd_Start c os of
                     (c', Some err) \<Rightarrow>
                       Inr (d\<lparr>cmd := Some c'\<rparr>,
                            Some (Wrapped (''failed to start daemon '' @ Name d @ '': '') err),
                            [])
                   | (c', None) \<Rightarrow>
                       Inr (d\<lparr>cmd := Some c'\<rparr>, None, [Watcher ctx, Waiter]))))"

subsection \<open>The waiter goroutine\<close>

text \<open>\<^verbatim>\<open>close(d.done)\<close>: closing a closed channel panics.\<close>

definition close_done :: "Daemon \<Rightarrow> panic + Daemon" where
  "close_done d = (if done_closed d then Inl CloseOfClosedChannel else Inr (d\<lparr>done_closed := True\<rparr>))"

text \<open>
  The body of the waiter once \<^verbatim>\<open>d.cmd.Wait()\<close> has returned \<open>werr\<close>; the deferred close of
  \<^verbatim>\<open>d.done\<close> runs last on every path.
\<close>

definition waiter :: "Daemon \<Rightarrow> go_error option \<Rightarrow> panic + Daemon" where
  "waiter d werr =
     (case werr of
        Some err \<Rightarrow>
          (case as_ExitError err of
             Some ee \<Rightarrow>
               if ws_Signaled ee then close_done d
               else if ps_Exited ee \<and> ps_ExitCode ee = 0 then close_done d
               else close_done
                      (d\<lparr>exitError :=
                           Some (Wrapped (''daemon '' @ Name d @ '' exited with error: '') err)\<rparr>)
           | None \<Rightarrow> close_done d)
      | None \<Rightarrow> close_done d)"

subsection \<open>Status\<close>

definition no_process :: "Daemon \<Rightarrow> bool" where
  "no_process d = (cmd d = None \<or> Process (the (cmd d)) = None)"

definition pgid :: "Daemon \<Rightarrow> os \<Rightarrow> go_error + int" where
  "pgid d os =
     (if no_process d then Inl ErrDaemonNotRunning
      else getpgid os (the (Process (the (cmd d)))))"

definition Status :: "Daemon \<Rightarrow> os \<Rightarrow> Daemon \<times> DaemonStatus \<times> go_error option" where
  "Status d os =
     (if no_process d then (d, DaemonStatusStopped, None)
      else case pgid d os of
        Inl err \<Rightarrow>
          if errors_Is err (Errno ESRCH) then (d\<lparr>cmd := None\<rparr>, DaemonStatusStopped, None)
          else (d, DaemonStatusStopped, Some (Wrapped ''pgid: '' err))
      | Inr g \<Rightarrow>
          (case kill os (- g) 0 of
             Some err \<Rightarrow>
               if errors_Is err ErrProcessDone
               then (d\<lparr>cmd := None\<rparr>, DaemonStatusStopped, None)
               else (d, DaemonStatusStopped,
                     Some (Wrapped (''daemon '' @ Name d @ '' is not running: '') err))
           | None \<Rightarrow> (d, DaemonStatusRunning, None)))"

subsection \<open>Stop\<close>

text \<open>
  \<^verbatim>\<open>Stop\<close> blocks in three places: on the mutex, in the \<^verbatim>\<open>select\<close>, and on
  \<^verbatim>\<open>d.done\<close> after the kill signal. It is embedded as the pieces between these places;
  a \<open>stop_point\<close> says where the call stands.
\<close>

datatype pending = ReturnCtxErr | ReturnTimedOut

datatype stop_point =
    AwaitLock
  | AtSelect int
  | AwaitDone pending
  | StopReturned "go_error option"

text \<open>
  From the call to the \<^verbatim>\<open>select\<close>: the point reached, the supervisor, and the signals
  issued with \<^verbatim>\<open>syscall.Kill\<close> (target and signal). The deferred unlock runs on a return.
\<close>

definition Stop ::
  "Daemon \<Rightarrow> go_context \<Rightarrow> os \<Rightarrow> stop_point \<times> Daemon \<times> (int \<times> signal) list" where
  "Stop d ctx os =
     (if mu d then (AwaitLock, d, [])
      else
        (let d = d\<lparr>mu := True\<rparr> in
         if no_process d then (StopReturned (Some ErrDaemonNotRunning), d\<lparr>mu := False\<rparr>, [])
         else case pgid d os of
           Inl err \<Rightarrow> (StopReturned (Some (Wrapped ''pgid: '' err)), d\<lparr>mu := False\<rparr>, [])
         | Inr g \<Rightarrow>
             (case kill os (- g) SIGINT of
                Some err \<Rightarrow>
                  if \<not> errors_Is err ErrProcessDone
                  then (StopReturned (Some (Wrapped ''sigterm: '' err)), d\<lparr>mu := False\<rparr>,
                        [(- g, SIGINT)])
                  else (AtSelect g, d, [(- g, SIGINT)])
              | None \<Rightarrow> (AtSelect g, d, [(- g, SIGINT)]))))"

datatype select_case = CaseCtxDone | CaseDone | CaseGrace

text \<open>
  The \<^verbatim>\<open>select\<close>, with the case that fires: \<open>None\<close> when that case is not ready (the
  context is not done, or \<^verbatim>\<open>d.done\<close> is not closed; the grace period can always elapse).
\<close>

definition Stop_select ::
  "Daemon \<Rightarrow> go_context \<Rightarrow> (nat \<Rightarrow> go_error option) \<Rightarrow> os \<Rightarrow> int \<Rightarrow> select_case
    \<Rightarrow> (stop_point \<times> Daemon \<times> (int \<times> signal) list) option" where
  "Stop_select d ctx fired os g c =
     (case c of
        CaseCtxDone \<Rightarrow>
          if ctx_Err fired ctx = None then None
          else (let r = kill os (- g) SIGKILL in Some (AwaitDone ReturnCtxErr, d, [(- g, SIGKILL)]))
      | CaseDone \<Rightarrow>
          if \<not> done_closed d then None
          else if exitError d \<noteq> None then Some (StopReturned (exitError d), d\<lparr>mu := False\<rparr>, [])
          else Some (StopReturned None, d\<lparr>mu := False\<rparr>, [])
      | CaseGrace \<Rightarrow>
          (let r = kill os (- g) SIGKILL in Some (AwaitDone ReturnTimedOut, d, [(- g, SIGKILL)])))"

text \<open>The receive from \<^verbatim>\<open>d.done\<close> after the kill signal, and the return that follows.\<close>

definition Stop_await ::
  "Daemon \<Rightarrow> go_context \<Rightarrow> (nat \<Rightarrow> go_error option) \<Rightarrow> pending \<Rightarrow> (stop_point \<times> Daemon) option" where
  "Stop_await d ctx fired k =
     (if \<not> done_closed d then None
      else case k of
        ReturnCtxErr \<Rightarrow> Some (StopReturned (ctx_Err fired ctx), d\<lparr>mu := False\<rparr>)
      | ReturnTimedOut \<Rightarrow>
          Some (StopReturned (Some (ErrorString ''graceful shutdown timed out'')), d\<lparr>mu := False\<rparr>))"

subsection \<open>The watcher goroutine\<close>

datatype wake = CtxIsDone | DoneIsClosed

definition wake_ready :: "Daemon \<Rightarrow> go_context \<Rightarrow> (nat \<Rightarrow> go_error option) \<Rightarrow> wake \<Rightarrow> bool" where
  "wake_ready d ctx fired w =
     (case w of CtxIsDone \<Rightarrow> ctx_Err fired ctx \<noteq> None | DoneIsClosed \<Rightarrow> done_closed d)"


subsection \<open>The supervisor with its waiter running beside a call of Stop\<close>

text \<open>
  The shared supervisor, the signals issued so far, where the call of \<^verbatim>\<open>Stop\<close> stands
  (\<open>None\<close> before the call), whether that call got as far as its \<^verbatim>\<open>select\<close>, whether
  the waiter of the current child has run to its end, which cancellations have fired, and
  a panic if one happened.
\<close>

record system =
  dmn :: Daemon
  sent :: "(int \<times> signal) list"
  stop_at :: "stop_point option"
  stop_ctx :: go_context
  reached_select :: bool
  waiter_finished :: bool
  fired :: "nat \<Rightarrow> go_error option"
  panicked :: "panic option"

datatype event =
    CallStop go_context os
  | Select select_case os
  | RecvDone
  | ChildWaited "go_error option"
  | Cancel nat go_error
  | CallStatus os

text \<open>The state right after a successful \<^verbatim>\<open>Start\<close> left the supervisor as \<open>d\<close>.\<close>

definition started :: "Daemon \<Rightarrow> system" where
  "started d =
     \<lparr>dmn = d, sent = [], stop_at = None, stop_ctx = Background, reached_select = False,
      waiter_finished = False, fired = (\<lambda>k. None), panicked = None\<rparr>"

text \<open>
  A call of \<^verbatim>\<open>Stop\<close> can begin when none is in progress: the mutex lets one call
  through at a time.
\<close>

fun stop_idle :: "stop_point option \<Rightarrow> bool" where
  "stop_idle None = True"
| "stop_idle (Some (StopReturned r)) = True"
| "stop_idle (Some pt) = False"

text \<open>
  One step: a piece of \<^verbatim>\<open>Stop\<close>, the waiter's body when \<^verbatim>\<open>Wait\<close> returns, a
  cancellation, or a call of \<^verbatim>\<open>Status\<close>. A step that makes system calls carries what
  the operating system answers to them. \<open>None\<close> when the step cannot happen in this
  state.
\<close>

definition step :: "system \<Rightarrow> event \<Rightarrow> system option" where
  "step s ev =
     (if panicked s \<noteq> None then None
      else case ev of
        CallStop ctx os \<Rightarrow>
          (if \<not> stop_idle (stop_at s) then None
           else case Stop (dmn s) ctx os of
             (pt, d', tr) \<Rightarrow>
               Some (s\<lparr>dmn := d', sent := sent s @ tr, stop_at := Some pt, stop_ctx := ctx,
                       reached_select := (case pt of AtSelect g \<Rightarrow> True | _ \<Rightarrow> False)\<rparr>))
      | Select c os \<Rightarrow>
          (case stop_at s of
             Some (AtSelect g) \<Rightarrow>
               (case Stop_select (dmn s) (stop_ctx s) (fired s) os g c of
                  Some (pt, d', tr) \<Rightarrow>
                    Some (s\<lparr>dmn := d', sent := sent s @ tr, stop_at := Some pt\<rparr>)
                | None \<Rightarrow> None)
           | _ \<Rightarrow> None)
      | RecvDone \<Rightarrow>
          (case stop_at s of
             Some (AwaitDone k) \<Rightarrow>
               (case Stop_await (dmn s) (stop_ctx s) (fired s) k of
                  Some (pt, d') \<Rightarrow> Some (s\<lparr>dmn := d', stop_at := Some pt\<rparr>)
                | None \<Rightarrow> None)
           | _ \<Rightarrow> None)
      | ChildWaited werr \<Rightarrow>
          (if waiter_finished s then None
           else case waiter (dmn s) werr of
             Inl p \<Rightarrow> Some (s\<lparr>panicked := Some p\<rparr>)
           | Inr d' \<Rightarrow> Some (s\<lparr>dmn := d', waiter_finished := True\<rparr>))
      | Cancel k e \<Rightarrow>
          (if fired s k \<noteq> None then None
           else Some (s\<lparr>fired := (fired s)(k := Some e)\<rparr>))
      | CallStatus os \<Rightarrow> Some (s\<lparr>dmn := fst (Status (dmn s) os)\<rparr>))"

fun run :: "system \<Rightarrow> event list \<Rightarrow> system option" where
  "run s [] = Some s"
| "run s (ev # evs) = (case step s ev of None \<Rightarrow> None | Some s' \<Rightarrow> run s' evs)"

text \<open>
  An operating system that finds every command in \<^verbatim>\<open>/usr/bin\<close> and starts it as
  process 100, in its own group.
\<close>

definition os_ok :: os where
  "os_ok =
     \<lparr>LookPath = (\<lambda>name. (''/usr/bin/'' @ name, None)), spawn = (\<lambda>c. Inr 100),
      getpgid = (\<lambda>p. Inr p), kill = (\<lambda>p sig. None)\<rparr>"

text \<open>
  The supervisor of the repository's test \<^verbatim>\<open>TestStartStop\<close> after its \<^verbatim>\<open>Start\<close>:
  \<^verbatim>\<open>cat\<close> running as process 100.
\<close>

definition cat_daemon :: Daemon where
  "cat_daemon =
     \<lparr>Name = ''catproc'', Commands = [''cat''], Logger = NewMemoryLogger, Workdir = ''/tmp'',
      cmd = Some \<lparr>Path = ''/usr/bin/cat'', Args = [''cat''], Dir = ''/tmp'',
                  Stdout = Some DaemonLogger, Stderr = Some DaemonLogger, Setpgid = True,
                  cmd_ctx = WithoutCancel Background, Process = Some 100, Err = None\<rparr>,
      mu = False, exitError = None, done_closed = False\<rparr>"


text \<open>
  An operating system in which that process is gone: both system calls report
  \<^verbatim>\<open>ESRCH\<close>, as the repository's test \<^verbatim>\<open>TestStopKillsDescendants\<close> expects of
  \<^verbatim>\<open>syscall.Kill\<close> for a process that no longer exists.
\<close>

definition os_gone :: os where
  "os_gone =
     \<lparr>LookPath = (\<lambda>name. (''/usr/bin/'' @ name, None)), spawn = (\<lambda>c. Inr 100),
      getpgid = (\<lambda>p. Inl (Errno ESRCH)), kill = (\<lambda>p sig. Some (Errno ESRCH))\<rparr>"

text \<open>The group still resolves, but signalling it reports \<^verbatim>\<open>ESRCH\<close>.\<close>

definition os_probe_gone :: os where
  "os_probe_gone =
     \<lparr>LookPath = (\<lambda>name. (''/usr/bin/'' @ name, None)), spawn = (\<lambda>c. Inr 100),
      getpgid = (\<lambda>p. Inr p), kill = (\<lambda>p sig. Some (Errno ESRCH))\<rparr>"

text \<open>
  What holds of every state the supervisor, its waiter and calls of \<^verbatim>\<open>Stop\<close> can
  reach when \<^verbatim>\<open>done\<close> was open at the start.
\<close>

definition past_send_ok :: "system \<Rightarrow> bool" where
  "past_send_ok s =
     (panicked s = None
      \<and> (done_closed (dmn s) \<longrightarrow> waiter_finished s)
      \<and> (reached_select s \<longrightarrow> (\<exists>g. (- g, SIGINT) \<in> set (sent s)))
      \<and> (stop_at s = None \<longrightarrow> \<not> reached_select s)
      \<and> (\<forall>r. stop_at s = Some (StopReturned r) \<and> reached_select s \<longrightarrow> done_closed (dmn s)))"

section \<open>Properties of the log buffer\<close>

lemma drop_one_tl: "drop 1 xs = tl xs"
  by (cases xs) simp_all

lemma strip_code_eq:
  "(if length p > 0 \<and> p ! (length p - 1) = newline then take (length p - 1) p else p)
     = strip_one_terminator p"
  by (auto simp: strip_one_terminator_def last_conv_nth butlast_conv_take)

lemma strip_one_terminator_cases:
  "strip_one_terminator p = p \<or> strip_one_terminator p @ [newline] = p"
proof (cases "p \<noteq> [] \<and> last p = newline")
  case True
  then have "butlast p @ [newline] = p"
    using append_butlast_last_id [of p] by simp
  with True show ?thesis by (simp add: strip_one_terminator_def)
next
  case False
  then show ?thesis by (auto simp: strip_one_terminator_def)
qed

lemma strip_only_one: "strip_one_terminator (''a'' @ [newline, newline]) = ''a'' @ [newline]"
  by (simp add: strip_one_terminator_def)

lemma Write_unfold:
  "Write m p =
     (m\<lparr>lines := (if int (length (lines m)) + 1 > maxLines m
                   then tl (lines m @ [strip_one_terminator p])
                   else lines m @ [strip_one_terminator p])\<rparr>,
      int (length p), None)"
  unfolding Write_def Let_def strip_code_eq drop_one_tl by simp

lemma within_cap_New: "within_cap NewMemoryLogger"
  by (simp add: within_cap_def NewMemoryLogger_def Lines_def)

lemma within_cap_Write: "within_cap m \<Longrightarrow> within_cap (fst (Write m p))"
  unfolding Write_unfold by (auto simp: within_cap_def Lines_def)

lemma within_cap_ReadLine: "within_cap m \<Longrightarrow> within_cap (fst (ReadLine m offset))"
  by (auto simp: within_cap_def Lines_def ReadLine_def)

lemma within_cap_apply_op: "within_cap m \<Longrightarrow> within_cap (apply_op m x)"
  by (cases x) (simp_all add: within_cap_Write within_cap_ReadLine)

lemma within_cap_run_ops: "within_cap m \<Longrightarrow> within_cap (run_ops m xs)"
  by (induction xs arbitrary: m) (simp_all add: within_cap_apply_op)

text \<open>
  Claim C7. For every buffer and every offset, \<open>ReadLine\<close> fails with the end-of-data
  error exactly when the offset is negative or at least the line count, and then leaves the
  buffer as it was. Otherwise it returns the lines from the offset to the end, in order (a
  non-empty list that, appended to the retained lines, gives the old contents); the buffer
  retains exactly the lines before the offset, so its count is the offset and the same read
  repeated fails with end-of-data.
\<close>

theorem ReadLine_consumes:
  "(if offset < 0 \<or> Lines m \<le> offset
    then ReadLine m offset = (m, Inl EOF)
    else snd (ReadLine m offset) = Inr (drop (nat offset) (lines m))
       \<and> drop (nat offset) (lines m) \<noteq> []
       \<and> take (nat offset) (lines m) @ drop (nat offset) (lines m) = lines m
       \<and> fst (ReadLine m offset) = m\<lparr>lines := take (nat offset) (lines m)\<rparr>
       \<and> Lines (fst (ReadLine m offset)) = offset
       \<and> snd (ReadLine (fst (ReadLine m offset)) offset) = Inl EOF)"
proof (cases "offset < 0 \<or> Lines m \<le> offset")
  case True
  then show ?thesis by (auto simp: ReadLine_def Lines_def)
next
  case False
  then have r: "0 \<le> offset" "nat offset < length (lines m)"
    by (auto simp: Lines_def)
  then have m: "min (length (lines m)) (nat offset) = nat offset" by simp
  from False r show ?thesis
    by (simp add: ReadLine_def Lines_def m)
qed

theorem ReadLine_consumes_witness:
  "ReadLine \<lparr>lines = [''a'', ''b'', ''c''], maxLines = 1024\<rparr> 1
     = (\<lparr>lines = [''a''], maxLines = 1024\<rparr>, Inr [''b'', ''c''])
   \<and> ReadLine \<lparr>lines = [''a''], maxLines = 1024\<rparr> 1
     = (\<lparr>lines = [''a''], maxLines = 1024\<rparr>, Inl EOF)
   \<and> ReadLine NewMemoryLogger 0 = (NewMemoryLogger, Inl EOF)
   \<and> ReadLine \<lparr>lines = [''a'', ''b'', ''c''], maxLines = 1024\<rparr> (- 1)
     = (\<lparr>lines = [''a'', ''b'', ''c''], maxLines = 1024\<rparr>, Inl EOF)"
proof -
  let ?m = "\<lparr>lines = [''a'', ''b'', ''c''], maxLines = 1024\<rparr>"
  have a: "ReadLine ?m 1 = (\<lparr>lines = [''a''], maxLines = 1024\<rparr>, Inr [''b'', ''c''])"
    using ReadLine_consumes [of 1 ?m]
    by (simp add: Lines_def prod_eq_iff)
  have b: "ReadLine \<lparr>lines = [''a''], maxLines = 1024\<rparr> 1
             = (\<lparr>lines = [''a''], maxLines = 1024\<rparr>, Inl EOF)"
    using ReadLine_consumes [of 1 "\<lparr>lines = [''a''], maxLines = 1024\<rparr>"]
    by (simp add: Lines_def)
  have c: "ReadLine NewMemoryLogger 0 = (NewMemoryLogger, Inl EOF)"
    using ReadLine_consumes [of 0 NewMemoryLogger]
    by (simp add: Lines_def NewMemoryLogger_def)
  have d: "ReadLine ?m (- 1) = (?m, Inl EOF)"
    using ReadLine_consumes [of "- 1" ?m] by simp
  from a b c d show ?thesis by simp
qed

text \<open>
  Claim C8. For every input byte sequence, \<open>Write\<close> never fails and returns the full
  input length; the line it stores is the input with at most one trailing newline removed
  (the stored line is the input itself, or the input is the stored line followed by one
  newline); exactly that one line is appended, and when the append makes the count exceed
  the cap, the first (oldest) line is dropped, so the count grows by one or stays.
\<close>

theorem Write_appends_one_line:
  "snd (snd (Write m p)) = None
   \<and> fst (snd (Write m p)) = int (length p)
   \<and> maxLines (fst (Write m p)) = maxLines m
   \<and> (strip_one_terminator p = p \<or> strip_one_terminator p @ [newline] = p)
   \<and> lines (fst (Write m p)) =
        (if Lines m + 1 > maxLines m
         then tl (lines m @ [strip_one_terminator p])
         else lines m @ [strip_one_terminator p])
   \<and> Lines (fst (Write m p)) = (if Lines m + 1 > maxLines m then Lines m else Lines m + 1)"
  unfolding Write_unfold using strip_one_terminator_cases [of p]
  by (simp add: Lines_def)

theorem Write_appends_one_line_witness:
  "Write NewMemoryLogger (''hello world'' @ [newline])
     = (\<lparr>lines = [''hello world''], maxLines = 1024\<rparr>, 12, None)
   \<and> lines (fst (Write \<lparr>lines = [''a'', ''b''], maxLines = 2\<rparr> ''c'')) = [''b'', ''c'']"
proof -
  have a: "Write NewMemoryLogger (''hello world'' @ [newline])
             = (\<lparr>lines = [''hello world''], maxLines = 1024\<rparr>, 12, None)"
    using Write_appends_one_line [of NewMemoryLogger "''hello world'' @ [newline]"]
    by (simp add: prod_eq_iff NewMemoryLogger_def Lines_def strip_one_terminator_def)
  have b: "lines (fst (Write \<lparr>lines = [''a'', ''b''], maxLines = 2\<rparr> ''c'')) = [''b'', ''c'']"
    using Write_appends_one_line [of "\<lparr>lines = [''a'', ''b''], maxLines = 2\<rparr>" "''c''"]
    by (simp add: Lines_def strip_one_terminator_def newline_def)
  from a b show ?thesis by simp
qed

text \<open>
  Claim C9. The predicate "the cap is 1024 and the line count is at most 1024" holds
  of the freshly constructed buffer and is preserved by \<open>Write\<close>, by \<open>ReadLine\<close> and by
  every other operation (\<open>Lines\<close> and \<open>Close\<close> leave the buffer as it is); hence after
  any sequence of operations on a fresh buffer the line count is at most 1024.
\<close>

theorem within_cap_invariant:
  "within_cap NewMemoryLogger
   \<and> (\<forall>m p. within_cap m \<longrightarrow> within_cap (fst (Write m p)))
   \<and> (\<forall>m offset. within_cap m \<longrightarrow> within_cap (fst (ReadLine m offset)))
   \<and> (\<forall>m x. within_cap m \<longrightarrow> within_cap (apply_op m x))
   \<and> (\<forall>xs. Lines (run_ops NewMemoryLogger xs) \<le> 1024)"
  using within_cap_New within_cap_Write within_cap_ReadLine within_cap_apply_op
    within_cap_run_ops [OF within_cap_New]
  by (simp add: within_cap_def)

theorem within_cap_invariant_witness:
  "within_cap NewMemoryLogger
   \<and> within_cap (fst (Write NewMemoryLogger ''x''))
   \<and> within_cap (fst (ReadLine (fst (Write NewMemoryLogger ''x'')) 0))
   \<and> Lines (run_ops NewMemoryLogger (replicate 2000 (OpWrite ''x''))) \<le> 1024"
proof -
  have a: "within_cap NewMemoryLogger"
    using within_cap_invariant by blast
  have b: "within_cap (fst (Write NewMemoryLogger ''x''))"
    using within_cap_invariant a by blast
  have c: "within_cap (fst (ReadLine (fst (Write NewMemoryLogger ''x'')) 0))"
    using within_cap_invariant b by blast
  have d: "Lines (run_ops NewMemoryLogger (replicate 2000 (OpWrite ''x''))) \<le> 1024"
    using within_cap_invariant by blast
  from a b c d show ?thesis by simp
qed

section \<open>Properties of the supervisor\<close>

subsection \<open>Auxiliary facts\<close>

lemma no_process_mu [simp]: "no_process (d\<lparr>mu := b\<rparr>) = no_process d"
  by (simp add: no_process_def)

lemma pgid_mu [simp]: "pgid (d\<lparr>mu := b\<rparr>) os = pgid d os"
  by (simp add: pgid_def)

lemma no_process_NewDaemon: "no_process (NewDaemon name commands workdir)"
  by (simp add: no_process_def NewDaemon_def)

lemma termination_signal_SIGINT: "termination_signal SIGINT"
  by (simp add: termination_signal_def)

text \<open>No errno matches \<^verbatim>\<open>os.ErrProcessDone\<close>.\<close>

lemma Errno_not_ProcessDone: "errors_Is (Errno n) ErrProcessDone = False"
  by simp

lemma Errno_ESRCH_is_ESRCH: "errors_Is (Errno ESRCH) (Errno ESRCH)"
  by simp

subsection \<open>Stop without a process\<close>

text \<open>
  Claim C2. On a supervisor without a process handle (none was ever started, or the handle
  was cleared, or the command has no process), \<open>Stop\<close> returns \<open>ErrDaemonNotRunning\<close> as
  soon as it holds the mutex, issues no signal and leaves the supervisor as it was; while
  another call holds the mutex it waits, also without changing anything. No panic is
  possible: the result is a value of the embedding for every such supervisor.
\<close>

theorem Stop_not_running:
  "no_process d \<Longrightarrow>
     Stop d ctx os =
       ((if mu d then AwaitLock else StopReturned (Some ErrDaemonNotRunning)), d, [])"
  by (simp add: Stop_def Let_def)

theorem Stop_not_running_witness:
  "Stop (NewDaemon ''x'' [''doesnotmatter''] ''/tmp'') Background os_ok
     = (StopReturned (Some ErrDaemonNotRunning), NewDaemon ''x'' [''doesnotmatter''] ''/tmp'', [])
   \<and> fst (Status cat_daemon os_gone) = cat_daemon\<lparr>cmd := None\<rparr>
   \<and> Stop (fst (Status cat_daemon os_gone)) Background os_ok
     = (StopReturned (Some ErrDaemonNotRunning), cat_daemon\<lparr>cmd := None\<rparr>, [])"
proof -
  let ?d = "NewDaemon ''x'' [''doesnotmatter''] ''/tmp''"
  have a: "Stop ?d Background os_ok = (StopReturned (Some ErrDaemonNotRunning), ?d, [])"
    using Stop_not_running [of ?d Background os_ok]
    by (simp add: no_process_def NewDaemon_def)
  have s: "fst (Status cat_daemon os_gone) = cat_daemon\<lparr>cmd := None\<rparr>"
    by (simp add: cat_daemon_def Status_def no_process_def pgid_def os_gone_def)
  have b: "Stop (cat_daemon\<lparr>cmd := None\<rparr>) Background os_ok
     = (StopReturned (Some ErrDaemonNotRunning), cat_daemon\<lparr>cmd := None\<rparr>, [])"
    using Stop_not_running [of "cat_daemon\<lparr>cmd := None\<rparr>" Background os_ok]
    by (simp add: no_process_def cat_daemon_def)
  from a s b show ?thesis by simp
qed

subsection \<open>The graceful signal\<close>

text \<open>
  What the source's test does: a failed send is passed over exactly when the error matches
  \<^verbatim>\<open>os.ErrProcessDone\<close>, and every errno is reported.
\<close>

lemma Stop_passes_over_ProcessDone:
  "\<not> no_process d \<Longrightarrow> \<not> mu d \<Longrightarrow> pgid d os = Inr g \<Longrightarrow>
   kill os (- g) SIGINT = Some e \<Longrightarrow> errors_Is e ErrProcessDone \<Longrightarrow>
   Stop d ctx os = (AtSelect g, d\<lparr>mu := True\<rparr>, [(- g, SIGINT)])"
  by (simp add: Stop_def Let_def)

lemma Stop_reports_every_errno:
  "\<not> no_process d \<Longrightarrow> \<not> mu d \<Longrightarrow> pgid d os = Inr g \<Longrightarrow>
   kill os (- g) SIGINT = Some (Errno n) \<Longrightarrow>
   Stop d ctx os = (StopReturned (Some (Wrapped ''sigterm: '' (Errno n))), d, [(- g, SIGINT)])"
  by (simp add: Stop_def Let_def)

text \<open>
  Claim C4 says that a graceful send that fails because the process group is already gone
  is treated as success. The system call reports a group that is gone as \<^verbatim>\<open>ESRCH\<close>, and
  \<^verbatim>\<open>errors.Is(ESRCH, os.ErrProcessDone)\<close> is false: on the running \<^verbatim>\<open>cat\<close> supervisor,
  with a system whose \<^verbatim>\<open>Kill\<close> reports \<^verbatim>\<open>ESRCH\<close>, \<open>Stop\<close> returns the wrapped error
  \<^verbatim>\<open>sigterm: no such process\<close> and does not go on to its \<^verbatim>\<open>select\<close>.
\<close>

theorem Stop_signal_gone_is_failure:
  "Stop cat_daemon Background os_probe_gone
     = (StopReturned (Some (Wrapped ''sigterm: '' (Errno ESRCH))), cat_daemon,
        [(- 100, SIGINT)])"
  by (simp add: cat_daemon_def Stop_def no_process_def pgid_def os_probe_gone_def)

subsection \<open>Status\<close>

text \<open>The branches of \<open>Status\<close>, and the only change it makes to the supervisor.\<close>

lemma Status_branches:
  "Status d os =
     (if no_process d then (d, DaemonStatusStopped, None)
      else case getpgid os (the (Process (the (cmd d)))) of
        Inl err \<Rightarrow>
          if errors_Is err (Errno ESRCH) then (d\<lparr>cmd := None\<rparr>, DaemonStatusStopped, None)
          else (d, DaemonStatusStopped, Some (Wrapped ''pgid: '' err))
      | Inr g \<Rightarrow>
          (case kill os (- g) 0 of
             None \<Rightarrow> (d, DaemonStatusRunning, None)
           | Some err \<Rightarrow>
               if errors_Is err ErrProcessDone
               then (d\<lparr>cmd := None\<rparr>, DaemonStatusStopped, None)
               else (d, DaemonStatusStopped,
                     Some (Wrapped (''daemon '' @ Name d @ '' is not running: '') err))))"
  by (simp add: Status_def pgid_def split: sum.splits option.splits)

lemma Status_changes_only_handle:
  "fst (Status d os) = d \<or> fst (Status d os) = d\<lparr>cmd := None\<rparr>"
  by (auto simp: Status_def split: sum.splits option.splits)

lemma Status_after_Start: "Status cat_daemon os_ok = (cat_daemon, DaemonStatusRunning, None)"
  by (simp add: Status_def cat_daemon_def no_process_def pgid_def os_ok_def)

text \<open>
  Claim C5 lists the results of \<open>Status\<close>; among them, when the probe reports that the
  process is finished, the handle is cleared and the result is \<open>Stopped\<close> with no error.
  The probe is \<^verbatim>\<open>syscall.Kill\<close> with signal 0, which reports a finished process as
  \<^verbatim>\<open>ESRCH\<close>: on the \<^verbatim>\<open>cat\<close> supervisor with such a probe result, \<open>Status\<close> keeps the
  handle and returns \<open>Stopped\<close> with a wrapped error. (The other branches are as the claim
  says: \<open>Status_branches\<close>, \<open>Status_changes_only_handle\<close>.)
\<close>

theorem Status_probe_gone_is_error:
  "Status cat_daemon os_probe_gone
     = (cat_daemon, DaemonStatusStopped,
        Some (Wrapped ''daemon catproc is not running: '' (Errno ESRCH)))"
  by (simp add: cat_daemon_def Status_def no_process_def pgid_def os_probe_gone_def)

subsection \<open>Start\<close>



text \<open>\<open>Start\<close> on a command line with a first element.\<close>

lemma Start_result:
  "Commands d = name # arg \<Longrightarrow>
   Start d ctx os =
     (let c = (CommandContext (WithoutCancel ctx) name arg os)
                \<lparr>Stdout := Some DaemonLogger, Stderr := Some DaemonLogger,
                 Dir := Workdir d, Setpgid := True\<rparr>
      in Inr (d\<lparr>cmd := Some (fst (cmd_Start c os))\<rparr>,
              map_option (Wrapped (''failed to start daemon '' @ Name d @ '': ''))
                (snd (cmd_Start c os)),
              if snd (cmd_Start c os) = None then [Watcher ctx, Waiter] else []))"
  by (simp add: Start_def index_at_def slice_from_def Let_def split: prod.splits option.splits)




lemma Base_cat: "Base ''cat'' = ''cat''"
  by (simp add: Base_def)

lemma Start_cat:
  "Start (NewDaemon ''catproc'' [''cat''] ''/tmp'') Background os_ok
     = Inr (cat_daemon, None, [Watcher Background, Waiter])"
  by (simp add: Start_result NewDaemon_def CommandContext_def Base_cat cmd_Start_def
      os_ok_def cat_daemon_def)

lemma Start_cat_again:
  "Start (cat_daemon\<lparr>done_closed := True\<rparr>) Background os_ok
     = Inr (cat_daemon\<lparr>done_closed := True\<rparr>, None, [Watcher Background, Waiter])"
  by (simp add: Start_result CommandContext_def Base_cat cmd_Start_def os_ok_def
      cat_daemon_def)













subsection \<open>The waiter and the outcome Stop returns\<close>

text \<open>
  What the waiter records when \<^verbatim>\<open>done\<close> is open: an error only for an \<^verbatim>\<open>ExitError\<close>
  that is neither a termination by signal nor an exit with code 0; the error wraps the
  \<^verbatim>\<open>ExitError\<close>, which carries the exit code.
\<close>

lemma waiter_classifies:
  "\<not> done_closed d \<Longrightarrow>
   waiter d werr =
     Inr (d\<lparr>exitError :=
            (case werr of
               None \<Rightarrow> exitError d
             | Some err \<Rightarrow>
                 (case as_ExitError err of
                    None \<Rightarrow> exitError d
                  | Some (Signaled sg) \<Rightarrow> exitError d
                  | Some (Exited c) \<Rightarrow>
                      if c = 0 then exitError d
                      else Some (Wrapped (''daemon '' @ Name d @ '' exited with error: '') err))),
          done_closed := True\<rparr>)"
  by (auto simp: waiter_def close_done_def split: option.splits ProcessState.splits)

lemma Stop_select_CaseDone:
  "Stop_select d ctx f os g CaseDone =
     (if done_closed d then Some (StopReturned (exitError d), d\<lparr>mu := False\<rparr>, []) else None)"
  by (simp add: Stop_select_def)

text \<open>
  The repository's test \<^verbatim>\<open>TestStartStop\<close>: \<^verbatim>\<open>cat\<close> is started, \<open>Status\<close> reports
  \<open>Running\<close>, \<open>Stop\<close> interrupts it and returns nil once the waiter has seen the
  child die of the signal, and \<open>Status\<close> then finds no such process, clears the handle
  and reports \<open>Stopped\<close>.
\<close>

lemma TestStartStop_run:
  "Start (NewDaemon ''catproc'' [''cat''] ''/tmp'') Background os_ok
     = Inr (cat_daemon, None, [Watcher Background, Waiter])
   \<and> Status cat_daemon os_ok = (cat_daemon, DaemonStatusRunning, None)
   \<and> run (started cat_daemon)
        [CallStop Background os_ok, ChildWaited (Some (ExitError (Signaled SIGINT))),
         Select CaseDone os_ok]
      = Some ((started cat_daemon)
                \<lparr>dmn := cat_daemon\<lparr>done_closed := True\<rparr>, sent := [(- 100, SIGINT)],
                 stop_at := Some (StopReturned None), reached_select := True,
                 waiter_finished := True\<rparr>)
   \<and> Status (cat_daemon\<lparr>done_closed := True\<rparr>) os_gone
      = (cat_daemon\<lparr>cmd := None, done_closed := True\<rparr>, DaemonStatusStopped, None)"
  using Start_cat Status_after_Start
  by (simp add: cat_daemon_def Status_def os_ok_def os_gone_def waiter_def close_done_def
      started_def step_def Stop_def Stop_select_def no_process_def pgid_def Let_def)

lemma Stop_returns_exit_code:
  "run (started cat_daemon)
     [CallStop Background os_ok, ChildWaited (Some (ExitError (Exited 3))),
      Select CaseDone os_ok]
   = Some ((started cat_daemon)
             \<lparr>dmn := cat_daemon
                \<lparr>exitError := Some (Wrapped ''daemon catproc exited with error: ''
                                       (ExitError (Exited 3))),
                 done_closed := True\<rparr>,
              sent := [(- 100, SIGINT)],
              stop_at := Some (StopReturned
                (Some (Wrapped ''daemon catproc exited with error: '' (ExitError (Exited 3))))),
              reached_select := True, waiter_finished := True\<rparr>)"
  by (simp add: cat_daemon_def os_ok_def waiter_def close_done_def started_def step_def
      Stop_def Stop_select_def no_process_def pgid_def Let_def)

text \<open>
  Claim C3 says that the waiter records termination by signal and exit code 0 as clean,
  a non-zero exit as an error carrying the code, and any other wait error as an error
  outcome too, and that \<open>Stop\<close> returns the recorded outcome. The first three and the
  last hold (\<open>waiter_classifies\<close>, \<open>Stop_select_CaseDone\<close>). A wait error that is not
  an \<^verbatim>\<open>ExitError\<close> is only logged: for the wait error \<^verbatim>\<open>wait: no child processes\<close> the
  waiter leaves \<open>exitError\<close> nil, and \<open>Stop\<close>, woken by the waiter, returns nil.
\<close>

theorem waiter_loses_wait_error:
  "waiter cat_daemon (Some (Wrapped ''wait: '' (Errno ECHILD)))
     = Inr (cat_daemon\<lparr>done_closed := True\<rparr>)
   \<and> exitError (cat_daemon\<lparr>done_closed := True\<rparr>) = None
   \<and> run (started cat_daemon)
       [CallStop Background os_ok, ChildWaited (Some (Wrapped ''wait: '' (Errno ECHILD))),
        Select CaseDone os_ok]
     = Some ((started cat_daemon)
               \<lparr>dmn := cat_daemon\<lparr>done_closed := True\<rparr>, sent := [(- 100, SIGINT)],
                stop_at := Some (StopReturned None), reached_select := True,
                waiter_finished := True\<rparr>)"
  by (simp add: cat_daemon_def os_ok_def waiter_def close_done_def started_def step_def
      Stop_def Stop_select_def no_process_def pgid_def Let_def)

subsection \<open>Stop returns after the waiter\<close>

lemma Stop_keeps_done: "Stop d ctx os = (pt, d', tr) \<Longrightarrow> done_closed d' = done_closed d"
  by (auto simp: Stop_def Let_def split: if_splits sum.splits option.splits)

lemma Stop_AtSelect_sent: "Stop d ctx os = (AtSelect g, d', tr) \<Longrightarrow> tr = [(- g, SIGINT)]"
  by (auto simp: Stop_def Let_def split: if_splits sum.splits option.splits)

lemma Stop_select_keeps_done:
  "Stop_select d ctx f os g c = Some (pt, d', tr) \<Longrightarrow> done_closed d' = done_closed d"
  by (auto simp: Stop_select_def Let_def split: if_splits select_case.splits)

lemma Stop_select_returned:
  "Stop_select d ctx f os g c = Some (StopReturned r, d', tr) \<Longrightarrow> done_closed d"
  by (auto simp: Stop_select_def Let_def split: if_splits select_case.splits)

lemma Stop_await_done:
  "Stop_await d ctx f k = Some (pt, d') \<Longrightarrow> done_closed d \<and> done_closed d'"
  by (auto simp: Stop_await_def split: if_splits pending.splits)

lemma waiter_closes: "waiter d werr = Inr d' \<Longrightarrow> done_closed d' \<and> \<not> done_closed d"
  by (auto simp: waiter_def close_done_def split: if_splits option.splits)

lemma waiter_panics: "waiter d werr = Inl p \<Longrightarrow> done_closed d"
  by (auto simp: waiter_def close_done_def split: if_splits option.splits)

lemma Status_keeps_done: "done_closed (fst (Status d os)) = done_closed d"
  by (auto simp: Status_def split: sum.splits option.splits)

lemma step_past_send_ok:
  assumes "past_send_ok s" and "step s ev = Some s'"
  shows "past_send_ok s'"
proof (cases ev)
  case (CallStop ctx os)
  obtain pt d' tr where st: "Stop (dmn s) ctx os = (pt, d', tr)"
    by (cases "Stop (dmn s) ctx os") auto
  with assms CallStop have s':
    "s' = s\<lparr>dmn := d', sent := sent s @ tr, stop_at := Some pt, stop_ctx := ctx,
            reached_select := (case pt of AtSelect g \<Rightarrow> True | _ \<Rightarrow> False)\<rparr>"
    by (auto simp: step_def past_send_ok_def split: if_splits)
  from st have dn: "done_closed d' = done_closed (dmn s)" by (rule Stop_keeps_done)
  show ?thesis
  proof (cases pt)
    case (AtSelect g)
    with st have "tr = [(- g, SIGINT)]" by (simp add: Stop_AtSelect_sent)
    with assms(1) s' dn AtSelect show ?thesis
      by (auto simp: past_send_ok_def)
  qed (use assms(1) s' dn in \<open>auto simp: past_send_ok_def\<close>)
next
  case (Select c os)
  with assms obtain g pt d' tr where g: "stop_at s = Some (AtSelect g)"
    and sel: "Stop_select (dmn s) (stop_ctx s) (fired s) os g c = Some (pt, d', tr)"
    and s': "s' = s\<lparr>dmn := d', sent := sent s @ tr, stop_at := Some pt\<rparr>"
    by (auto simp: step_def past_send_ok_def split: if_splits option.splits stop_point.splits)
  from sel have dn: "done_closed d' = done_closed (dmn s)" by (rule Stop_select_keeps_done)
  from sel have "\<And>r. pt = StopReturned r \<Longrightarrow> done_closed (dmn s)"
    using Stop_select_returned by blast
  with assms(1) g s' dn show ?thesis
    by (auto simp: past_send_ok_def)
next
  case RecvDone
  with assms obtain k pt d' where g: "stop_at s = Some (AwaitDone k)"
    and aw: "Stop_await (dmn s) (stop_ctx s) (fired s) k = Some (pt, d')"
    and s': "s' = s\<lparr>dmn := d', stop_at := Some pt\<rparr>"
    by (auto simp: step_def past_send_ok_def split: if_splits option.splits stop_point.splits)
  from aw have "done_closed (dmn s) \<and> done_closed d'" by (rule Stop_await_done)
  with assms(1) g s' show ?thesis
    by (auto simp: past_send_ok_def)
next
  case (ChildWaited werr)
  with assms have nf: "\<not> waiter_finished s" and np: "panicked s = None"
    by (auto simp: step_def past_send_ok_def split: if_splits)
  with assms(1) have open_: "\<not> done_closed (dmn s)" by (auto simp: past_send_ok_def)
  show ?thesis
  proof (cases "waiter (dmn s) werr")
    case (Inl p)
    then have "done_closed (dmn s)" by (rule waiter_panics)
    with open_ show ?thesis by simp
  next
    case (Inr d')
    with assms ChildWaited nf np have s': "s' = s\<lparr>dmn := d', waiter_finished := True\<rparr>"
      by (simp add: step_def)
    from Inr have "done_closed d'" using waiter_closes by blast
    with assms(1) s' open_ show ?thesis
      by (auto simp: past_send_ok_def)
  qed
next
  case (Cancel k e)
  with assms have "s' = s\<lparr>fired := (fired s)(k := Some e)\<rparr>"
    by (auto simp: step_def split: if_splits)
  with assms(1) show ?thesis by (auto simp: past_send_ok_def)
next
  case (CallStatus os)
  with assms have "s' = s\<lparr>dmn := fst (Status (dmn s) os)\<rparr>"
    by (auto simp: step_def split: if_splits)
  with assms(1) show ?thesis by (auto simp: past_send_ok_def Status_keeps_done)
qed

lemma run_past_send_ok:
  "past_send_ok s \<Longrightarrow> run s evs = Some s' \<Longrightarrow> past_send_ok s'"
proof (induction evs arbitrary: s)
  case Nil
  then show ?case by simp
next
  case (Cons ev evs)
  then obtain s1 where s1: "step s ev = Some s1" "run s1 evs = Some s'"
    by (auto split: option.splits)
  with Cons.prems(1) have "past_send_ok s1" using step_past_send_ok by blast
  with Cons.IH s1 show ?case by blast
qed

lemma started_past_send_ok: "\<not> done_closed d \<Longrightarrow> past_send_ok (started d)"
  by (simp add: past_send_ok_def started_def)

text \<open>
  A supervisor started once: \<^verbatim>\<open>done\<close> is open and one waiter is running. For any sequence
  of steps of \<open>Stop\<close> calls, of that waiter, of \<open>Status\<close> calls and of cancellations, with
  any answers of the operating system: whenever a call of \<open>Stop\<close> that reached its
  \<^verbatim>\<open>select\<close> has returned, the waiter has run to its end, nothing has panicked, and an
  interrupt signal was issued.
\<close>

lemma Stop_returns_after_waiter:
  assumes "\<not> done_closed d"
      and "run (started d) evs = Some s"
      and "stop_at s = Some (StopReturned r)"
      and "reached_select s"
  shows "waiter_finished s \<and> panicked s = None \<and> (\<exists>p. (p, SIGINT) \<in> set (sent s))"
proof -
  from assms(1) have "past_send_ok (started d)" by (rule started_past_send_ok)
  with assms(2) have "past_send_ok s" using run_past_send_ok by blast
  with assms(3,4) show ?thesis
    by (auto simp: past_send_ok_def)
qed

lemma Stop_after_cancellation_run:
  "run (started cat_daemon)
     [CallStop (WithCancel 1 Background) os_ok, Cancel 1 Canceled,
      Select CaseCtxDone os_ok,
      ChildWaited (Some (ExitError (Signaled SIGKILL))), RecvDone]
   = Some ((started cat_daemon)
             \<lparr>dmn := cat_daemon\<lparr>done_closed := True\<rparr>,
              sent := [(- 100, SIGINT), (- 100, SIGKILL)],
              stop_at := Some (StopReturned (Some Canceled)),
              stop_ctx := WithCancel 1 Background,
              reached_select := True, waiter_finished := True,
              fired := (\<lambda>k. None)(1 := Some Canceled)\<rparr>)"
  by (simp add: cat_daemon_def os_ok_def waiter_def close_done_def started_def step_def
      Stop_def Stop_select_def Stop_await_def no_process_def pgid_def Let_def)

lemma Stop_after_grace_run:
  "run (started cat_daemon)
     [CallStop Background os_ok, Select CaseGrace os_ok,
      ChildWaited (Some (ExitError (Signaled SIGKILL))), RecvDone]
   = Some ((started cat_daemon)
             \<lparr>dmn := cat_daemon\<lparr>done_closed := True\<rparr>,
              sent := [(- 100, SIGINT), (- 100, SIGKILL)],
              stop_at := Some (StopReturned (Some (ErrorString ''graceful shutdown timed out''))),
              reached_select := True, waiter_finished := True\<rparr>)"
  by (simp add: cat_daemon_def os_ok_def waiter_def close_done_def started_def step_def
      Stop_def Stop_select_def Stop_await_def no_process_def pgid_def Let_def)

text \<open>
  Claim C1 says that on every return path of \<open>Stop\<close> past the graceful send the waiter
  spawned by \<open>Start\<close> has completed. \<^verbatim>\<open>done\<close> is made once, in \<open>NewDaemon\<close>, and each
  waiter closes it. On a supervisor that is started, whose child ends, and that is started
  again, \<^verbatim>\<open>done\<close> is closed while the second child's waiter runs: \<open>Stop\<close> sends the
  interrupt signal to group 100, finds \<^verbatim>\<open>done\<close> closed in its \<^verbatim>\<open>select\<close> and returns
  nil although that waiter has not finished; when the second child ends, its waiter panics
  closing the closed channel.
\<close>

theorem Stop_on_restart_returns_early:
  "Start (NewDaemon ''catproc'' [''cat''] ''/tmp'') Background os_ok
     = Inr (cat_daemon, None, [Watcher Background, Waiter])
   \<and> waiter cat_daemon None = Inr (cat_daemon\<lparr>done_closed := True\<rparr>)
   \<and> Start (cat_daemon\<lparr>done_closed := True\<rparr>) Background os_ok
     = Inr (cat_daemon\<lparr>done_closed := True\<rparr>, None, [Watcher Background, Waiter])
   \<and> run (started (cat_daemon\<lparr>done_closed := True\<rparr>))
       [CallStop Background os_ok, Select CaseDone os_ok]
     = Some ((started (cat_daemon\<lparr>done_closed := True\<rparr>))
               \<lparr>sent := [(- 100, SIGINT)], stop_at := Some (StopReturned None),
                reached_select := True\<rparr>)
   \<and> \<not> waiter_finished ((started (cat_daemon\<lparr>done_closed := True\<rparr>))
               \<lparr>sent := [(- 100, SIGINT)], stop_at := Some (StopReturned None),
                reached_select := True\<rparr>)
   \<and> run (started (cat_daemon\<lparr>done_closed := True\<rparr>))
       [CallStop Background os_ok, Select CaseDone os_ok, ChildWaited None]
     = Some ((started (cat_daemon\<lparr>done_closed := True\<rparr>))
               \<lparr>sent := [(- 100, SIGINT)], stop_at := Some (StopReturned None),
                reached_select := True, panicked := Some CloseOfClosedChannel\<rparr>)"
  using Start_cat Start_cat_again
  by (simp add: cat_daemon_def os_ok_def waiter_def close_done_def started_def step_def
      Stop_def Stop_select_def no_process_def pgid_def Let_def)

end
